theory Spec2Isabelle
  imports Main "HOL-Library.Word"
begin

section \<open>JavaScript strings\<close>

text \<open>
  A JavaScript string is a sequence of UTF-16 code units. The client code of
  \<^verbatim>\<open>src/App.jsx\<close> uses three string primitives: truthiness (\<^verbatim>\<open>!s\<close> holds exactly for
  the empty string), \<^verbatim>\<open>String.prototype.trim\<close> and a global replacement of the pattern
  \<^verbatim>\<open>/\s+/g\<close>. The last two share one notion of white space: the code units of the ECMAScript
  productions WhiteSpace and LineTerminator, all of which lie in the basic plane.
\<close>

type_synonym js_string = "16 word list"

definition ascii :: "string \<Rightarrow> js_string" where
  "ascii s = map of_char s"

definition is_white_space :: "16 word \<Rightarrow> bool" where
  "is_white_space c \<longleftrightarrow>
     c = 0x9 \<or> c = 0xA \<or> c = 0xB \<or> c = 0xC \<or> c = 0xD \<or> c = 0x20 \<or> c = 0xA0 \<or>
     c = 0x1680 \<or> (0x2000 \<le> c \<and> c \<le> 0x200A) \<or> c = 0x2028 \<or> c = 0x2029 \<or>
     c = 0x202F \<or> c = 0x205F \<or> c = 0x3000 \<or> c = 0xFEFF"

text \<open>\<^verbatim>\<open>s.trim()\<close>: white space is stripped from both ends.\<close>

definition trim :: "js_string \<Rightarrow> js_string" where
  "trim s = rev (dropWhile is_white_space (rev (dropWhile is_white_space s)))"

text \<open>
  \<^verbatim>\<open>s.replace(/\s+/g, '_')\<close>: the string is scanned from the left; at a white-space unit the
  greedy pattern consumes the whole run that starts there, one underscore is emitted, and
  the scan resumes behind the run. Any other unit is copied.
\<close>

function replace_ws :: "js_string \<Rightarrow> js_string" where
  "replace_ws [] = []"
| "replace_ws (c # cs) =
     (if is_white_space c then 0x5F # replace_ws (dropWhile is_white_space cs)
      else c # replace_ws cs)"
  by pat_completeness auto
termination
  by (relation "measure length") (auto simp: less_Suc_eq_le length_dropWhile_le)

text \<open>Line 133: the name given to the certificate download.\<close>

definition cert_download_name :: "js_string \<Rightarrow> js_string" where
  "cert_download_name p = ascii ''Certificate_'' @ replace_ws p @ ascii ''.pdf''"

subsection \<open>The specification's reading of the sanitised name\<close>

text \<open>
  The specification speaks of maximal runs of white space. \<open>blocks\<close> cuts a string into its
  maximal blocks of white-space units and of other units, in order; \<open>spec_sanitize\<close> puts
  a single underscore in place of each white-space block and keeps the others.
\<close>

function blocks :: "js_string \<Rightarrow> js_string list" where
  "blocks [] = []"
| "blocks (c # cs) =
     (if is_white_space c
      then (c # takeWhile is_white_space cs) # blocks (dropWhile is_white_space cs)
      else (c # takeWhile (\<lambda>d. \<not> is_white_space d) cs)
             # blocks (dropWhile (\<lambda>d. \<not> is_white_space d) cs))"
  by pat_completeness auto
termination
  by (relation "measure length") (auto simp: less_Suc_eq_le length_dropWhile_le)

fun underscore_block :: "js_string \<Rightarrow> js_string" where
  "underscore_block [] = []"
| "underscore_block (c # cs) = (if is_white_space c then [0x5F] else c # cs)"

definition spec_sanitize :: "js_string \<Rightarrow> js_string" where
  "spec_sanitize p = concat (map underscore_block (blocks p))"

text \<open>
  A template literal interpolates a number in decimal notation (line 87:
  \<^verbatim>\<open>`Server error: ${response.status}`\<close>).
\<close>

function decimal :: "nat \<Rightarrow> js_string" where
  "decimal n =
     (if n < 10 then [of_nat (48 + n)]
      else decimal (n div 10) @ [of_nat (48 + n mod 10)])"
  by pat_completeness auto
termination
  by (relation "measure id") auto

section \<open>The client: data\<close>

text \<open>
  \<^verbatim>\<open>COURSES\<close> (lines 5 to 13) feeds the options of the course selector; the selector has one
  more option, the empty value.
\<close>

definition COURSES :: "js_string list" where
  "COURSES = map ascii
     [''AI Product Development Fundamentals'',
      ''Building AI-Powered Applications'',
      ''Prompt Engineering & LLM Integration'',
      ''Full-Stack AI Development'',
      ''AI Product Design & UX'',
      ''Digital Profile Creation'',
      ''Deploying AI Solutions'']"

text \<open>The argument of \<^verbatim>\<open>JSON.stringify\<close>, as far as the client builds one: objects of strings.\<close>

datatype json = JString js_string | JObject "(string \<times> json) list"

record http_request =
  url :: string
  http_method :: string
  headers :: "(string \<times> string) list"
  body :: json

definition getApiUrl :: "bool \<Rightarrow> string \<Rightarrow> string" where
  "getApiUrl is_prod path = (if is_prod then path else ''http://localhost:8000'' @ path)"

record cert_form =
  participant_name :: js_string
  course_name :: js_string
  completion_date :: js_string
  instructor_name :: js_string

datatype cert_field = Participant_name | Course_name | Completion_date | Instructor_name

datatype js_error = Error (message: js_string)

text \<open>
  What the awaited promises of a request can deliver. \<^verbatim>\<open>fetch\<close> rejects (no response) or
  resolves to a response. Of a response the code reads \<^verbatim>\<open>ok\<close>, \<^verbatim>\<open>status\<close>, and one of
  \<^verbatim>\<open>json()\<close> and \<^verbatim>\<open>blob()\<close>. \<^verbatim>\<open>json()\<close> rejects, or resolves to \<^verbatim>\<open>null\<close> (reading a
  property of it throws a TypeError, whose message the engine words), or to a value whose
  property \<^verbatim>\<open>detail\<close> is absent, a string, or something else; of something else only its
  truthiness and its string conversion matter to \<^verbatim>\<open>x || y\<close> and \<^verbatim>\<open>new Error(x)\<close>.
\<close>

type_synonym blob = "8 word list"

datatype detail_value = Undefined | StringValue js_string | OtherValue bool js_string

datatype json_outcome = JsonRejected | JsonNull js_string | JsonParsed detail_value

datatype blob_outcome = BlobRejected js_string | BlobResolved blob

record response =
  status :: nat
  json_result :: json_outcome
  blob_result :: blob_outcome

definition ok :: "response \<Rightarrow> bool" where
  "ok r \<longleftrightarrow> 200 \<le> status r \<and> status r \<le> 299"

datatype fetch_outcome = FetchRejected js_string | FetchResolved response

text \<open>
  The state: the React state of \<^verbatim>\<open>App\<close> (lines 18 to 69, without the tab, which only decides
  which of the two forms is shown), the build flag read by \<^verbatim>\<open>getApiUrl\<close>, and what the
  handlers touch outside React: the calls of \<^verbatim>\<open>fetch\<close> made so far, the calls of the two
  handlers that are suspended at their \<^verbatim>\<open>await\<close> (a call of \<^verbatim>\<open>generateCertificate\<close> holds on to
  the form it was started with), the children of \<^verbatim>\<open>document.body\<close>, the store of object
  URLs, and the files the browser was asked to save: the name, and the blob behind the
  link at the time of the click.
\<close>

type_synonym node = nat
type_synonym object_url = nat

record app =
  env_PROD :: bool
  markdown :: js_string
  isConverting :: bool
  error :: "js_string option"
  certForm :: cert_form
  isGenerating :: bool
  certError :: "js_string option"
  certSuccess :: bool
  requests :: "http_request list"
  convert_pending :: nat
  certificate_pending :: "cert_form list"
  body_children :: "node list"
  object_urls :: "(object_url \<times> blob) list"
  saved :: "(js_string \<times> blob option) list"

definition line :: "string \<Rightarrow> js_string" where
  "line s = ascii s @ [0xA]"

definition initial_markdown :: js_string where
  \<open>initial_markdown =
     line ''# Welcome to Markdown to PDF Converter'' @
     line '''' @
     line ''## Features'' @
     line ''- Real-time markdown preview'' @
     line ''- Server-side PDF generation with Python'' @
     line ''- FastAPI backend for robust processing'' @
     line ''- Beautiful, modern UI'' @
     line '''' @
     line ''## How to use'' @
     line ''1. Type or paste your markdown in the left panel'' @
     line ''2. See the live preview in the right panel'' @
     line ''3. Click "Download PDF" to export'' @
     line '''' @
     line ''### Sample Code Block'' @
     line ''```javascript'' @
     line ''const hello = () => {'' @
     line ''  console.log("Hello, World!");'' @
     line ''};'' @
     line ''```'' @
     line '''' @
     line ''### Sample List'' @
     line ''- Item 1'' @
     line ''- Item 2'' @
     line ''- Item 3'' @
     line '''' @
     line ''**Bold text** and *italic text* are supported!'' @
     line '''' @
     line ''> This is a blockquote with professional styling'' @
     line '''' @
     line ''---'' @
     line '''' @
     line ''### Technical Details'' @
     line ''This application uses:'' @
     line ''- **Frontend**: React + Vite'' @
     line ''- **Backend**: FastAPI + Python'' @
     line ''- **PDF Engine**: xhtml2pdf'' @
     line ''- **Deployment**: Vercel'' @
     line '''' @
     ascii ''Enjoy converting your markdown! '' @ [0xD83C, 0xDF89]\<close>

text \<open>
  The initial state. The completion date starts as the current date
  (\<^verbatim>\<open>new Date().toISOString().split('T')[0]\<close>), a parameter here, as is the page around the
  application.
\<close>

definition init :: "bool \<Rightarrow> js_string \<Rightarrow> node list \<Rightarrow> app" where
  "init is_prod today page =
     \<lparr>env_PROD = is_prod, markdown = initial_markdown, isConverting = False, error = None,
      certForm = \<lparr>participant_name = [], course_name = [], completion_date = today,
                  instructor_name = ascii ''IntelliForge AI Team''\<rparr>,
      isGenerating = False, certError = None, certSuccess = False,
      requests = [], convert_pending = 0, certificate_pending = [],
      body_children = page, object_urls = [], saved = []\<rparr>"

section \<open>The client: the download\<close>

text \<open>
  \<^verbatim>\<open>createObjectURL\<close> and \<^verbatim>\<open>createElement\<close> return something new: a URL no live object
  URL has, a node that is no child of the body.
\<close>

definition fresh :: "nat list \<Rightarrow> nat" where
  "fresh ns = Suc (foldr max ns 0)"

definition createObjectURL :: "blob \<Rightarrow> app \<Rightarrow> object_url \<times> app" where
  "createObjectURL b s =
     (let u = fresh (map fst (object_urls s))
      in (u, s\<lparr>object_urls := object_urls s @ [(u, b)]\<rparr>))"

definition revokeObjectURL :: "object_url \<Rightarrow> app \<Rightarrow> app" where
  "revokeObjectURL u s = s\<lparr>object_urls := filter (\<lambda>(v, b). v \<noteq> u) (object_urls s)\<rparr>"

definition createElement :: "app \<Rightarrow> node" where
  "createElement s = fresh (body_children s)"

definition appendChild :: "node \<Rightarrow> app \<Rightarrow> app" where
  "appendChild a s = s\<lparr>body_children := removeAll a (body_children s) @ [a]\<rparr>"

text \<open>\<^verbatim>\<open>removeChild\<close> throws when the node is not a child.\<close>

definition removeChild :: "node \<Rightarrow> app \<Rightarrow> js_error + app" where
  "removeChild a s =
     (if a \<in> set (body_children s)
      then Inr (s\<lparr>body_children := removeAll a (body_children s)\<rparr>)
      else Inl (Error (ascii ''NotFoundError'')))"

text \<open>A click on a link with a \<^verbatim>\<open>download\<close> attribute saves what the link points to.\<close>

definition click :: "object_url \<Rightarrow> js_string \<Rightarrow> app \<Rightarrow> app" where
  "click href name s = s\<lparr>saved := saved s @ [(name, map_of (object_urls s) href)]\<rparr>"

text \<open>
  Lines 91 to 98 and 130 to 137, the same in both handlers but for the name. The result is
  the error thrown, if any, with the state reached.
\<close>

definition download :: "blob \<Rightarrow> js_string \<Rightarrow> app \<Rightarrow> js_error option \<times> app" where
  "download b name s =
     (let (u, s1) = createObjectURL b s;
          a = createElement s1;
          s2 = appendChild a s1;
          s3 = click u name s2;
          s4 = revokeObjectURL u s3
      in case removeChild a s4 of
           Inl e \<Rightarrow> (Some e, s4)
         | Inr s5 \<Rightarrow> (None, s5))"

section \<open>The client: the two handlers\<close>

text \<open>Lines 85 to 88: what is thrown for a response that is not \<^verbatim>\<open>ok\<close>.\<close>

definition response_error :: "response \<Rightarrow> js_error" where
  "response_error r =
     (let fallback = ascii ''Server error: '' @ decimal (status r)
      in case json_result r of
           JsonRejected \<Rightarrow> Error (ascii ''Unknown error'')
         | JsonNull m \<Rightarrow> Error m
         | JsonParsed Undefined \<Rightarrow> Error fallback
         | JsonParsed (StringValue d) \<Rightarrow> Error (if d = [] then fallback else d)
         | JsonParsed (OtherValue truthy d) \<Rightarrow> Error (if truthy then d else fallback))"

text \<open>
  The part of a \<^verbatim>\<open>try\<close> block behind \<^verbatim>\<open>await fetch(...)\<close>, up to the download; the name of the
  download is the only difference between the handlers here.
\<close>

definition receive :: "fetch_outcome \<Rightarrow> js_string \<Rightarrow> app \<Rightarrow> js_error option \<times> app" where
  "receive out name s =
     (case out of
        FetchRejected m \<Rightarrow> (Some (Error m), s)
      | FetchResolved r \<Rightarrow>
          if \<not> ok r then (Some (response_error r), s)
          else (case blob_result r of
                  BlobRejected m \<Rightarrow> (Some (Error m), s)
                | BlobResolved b \<Rightarrow> download b name s))"

subsection \<open>convertToPdf\<close>

definition convert_request :: "bool \<Rightarrow> js_string \<Rightarrow> http_request" where
  "convert_request is_prod md =
     \<lparr>url = getApiUrl is_prod ''/api/convert'', http_method = ''POST'',
      headers = [(''Content-Type'', ''application/json'')],
      body = JObject [(''markdown'', JString md),
                      (''filename'', JString (ascii ''markdown-export.pdf''))]\<rparr>"

text \<open>Lines 75 to 83: the call runs up to the \<^verbatim>\<open>await\<close> of the fetch.\<close>

definition convertToPdf_call :: "app \<Rightarrow> app" where
  "convertToPdf_call s =
     s\<lparr>isConverting := True, error := None,
       requests := requests s @ [convert_request (env_PROD s) (markdown s)],
       convert_pending := Suc (convert_pending s)\<rparr>"

text \<open>
  Lines 85 to 104: the call resumes when the promises it awaits have settled. Nothing
  touches the state between the awaits, so the rest of the \<^verbatim>\<open>try\<close> block, the \<^verbatim>\<open>catch\<close> and the
  \<^verbatim>\<open>finally\<close> are one step. (\<^verbatim>\<open>console.error\<close> only logs.)
\<close>

definition convertToPdf_settle :: "fetch_outcome \<Rightarrow> app \<Rightarrow> app" where
  "convertToPdf_settle out s =
     (let (thrown, s1) = receive out (ascii ''markdown-export.pdf'') s;
          s2 = (case thrown of
                  None \<Rightarrow> s1
                | Some err \<Rightarrow> s1\<lparr>error := Some (message err)\<rparr>)
      in s2\<lparr>isConverting := False\<rparr>)"

subsection \<open>generateCertificate\<close>

text \<open>Lines 114 to 116.\<close>

definition validate :: "cert_form \<Rightarrow> js_error option" where
  "validate f =
     (if trim (participant_name f) = [] then Some (Error (ascii ''Please enter participant name''))
      else if course_name f = [] then Some (Error (ascii ''Please select a course''))
      else if completion_date f = [] then Some (Error (ascii ''Please select a date''))
      else None)"

definition certificate_request :: "bool \<Rightarrow> cert_form \<Rightarrow> http_request" where
  "certificate_request is_prod f =
     \<lparr>url = getApiUrl is_prod ''/api/certificate'', http_method = ''POST'',
      headers = [(''Content-Type'', ''application/json'')],
      body = JObject [(''participant_name'', JString (participant_name f)),
                      (''course_name'', JString (course_name f)),
                      (''completion_date'', JString (completion_date f)),
                      (''instructor_name'', JString (instructor_name f))]\<rparr>"

text \<open>
  Lines 108 to 122, and lines 139 to 144 when a check throws: then the call never reaches
  an \<^verbatim>\<open>await\<close> and ends in the same step. (\<^verbatim>\<open>e.preventDefault()\<close> only keeps the browser
  from loading a new page.)
\<close>

definition generateCertificate_call :: "app \<Rightarrow> app" where
  "generateCertificate_call s =
     (let s1 = s\<lparr>isGenerating := True, certError := None, certSuccess := False\<rparr>
      in case validate (certForm s1) of
           Some err \<Rightarrow> s1\<lparr>certError := Some (message err), isGenerating := False\<rparr>
         | None \<Rightarrow>
             s1\<lparr>requests := requests s1 @ [certificate_request (env_PROD s1) (certForm s1)],
                certificate_pending := certificate_pending s1 @ [certForm s1]\<rparr>)"

text \<open>
  Lines 124 to 144. \<open>f\<close> is the form the call was started with: the handler is a closure
  over the \<^verbatim>\<open>certForm\<close> of the render it was attached in.
\<close>

definition generateCertificate_settle :: "fetch_outcome \<Rightarrow> cert_form \<Rightarrow> app \<Rightarrow> app" where
  "generateCertificate_settle out f s =
     (let (thrown, s1) = receive out (cert_download_name (participant_name f)) s;
          s2 = (case thrown of
                  None \<Rightarrow> s1\<lparr>certSuccess := True\<rparr>
                | Some err \<Rightarrow> s1\<lparr>certError := Some (message err)\<rparr>)
      in s2\<lparr>isGenerating := False\<rparr>)"

text \<open>Lines 147 to 151.\<close>

fun set_field :: "cert_field \<Rightarrow> js_string \<Rightarrow> cert_form \<Rightarrow> cert_form" where
  "set_field Participant_name v f = f\<lparr>participant_name := v\<rparr>"
| "set_field Course_name v f = f\<lparr>course_name := v\<rparr>"
| "set_field Completion_date v f = f\<lparr>completion_date := v\<rparr>"
| "set_field Instructor_name v f = f\<lparr>instructor_name := v\<rparr>"

definition updateCertField :: "cert_field \<Rightarrow> js_string \<Rightarrow> app \<Rightarrow> app" where
  "updateCertField field v s =
     s\<lparr>certForm := set_field field v (certForm s), certError := None, certSuccess := False\<rparr>"

text \<open>
  Line 323: the preview card shows the default name in place of an empty instructor
  name. This is display only; it writes nothing to the form.
\<close>

definition preview_instructor :: "cert_form \<Rightarrow> js_string" where
  "preview_instructor f =
     (if instructor_name f = [] then ascii ''IntelliForge AI Team'' else instructor_name f)"

section \<open>The client: events\<close>

text \<open>
  What can happen to the page: the user clicks the download button, submits the
  certificate form, edits the markdown or a field of the form, and a suspended call of a
  handler resumes. Both buttons carry \<^verbatim>\<open>disabled={flag}\<close> (lines 196 and 285): while the flag
  is set the browser delivers no click and submits no form. React commits the state
  changes of an event handler before the next event is dispatched, so the attribute
  agrees with the flag whenever an event arrives.
\<close>

datatype event =
    ClickDownload
  | SubmitCertificate
  | ChangeMarkdown js_string
  | ChangeCertField cert_field js_string
  | ConvertSettled fetch_outcome
  | CertificateSettled fetch_outcome

fun step :: "event \<Rightarrow> app \<Rightarrow> app" where
  "step ClickDownload s = (if isConverting s then s else convertToPdf_call s)"
| "step SubmitCertificate s = (if isGenerating s then s else generateCertificate_call s)"
| "step (ChangeMarkdown v) s = s\<lparr>markdown := v\<rparr>"
| "step (ChangeCertField field v) s = updateCertField field v s"
| "step (ConvertSettled out) s =
     (case convert_pending s of
        0 \<Rightarrow> s
      | Suc n \<Rightarrow> convertToPdf_settle out (s\<lparr>convert_pending := n\<rparr>))"
| "step (CertificateSettled out) s =
     (case certificate_pending s of
        [] \<Rightarrow> s
      | f # fs \<Rightarrow> generateCertificate_settle out f (s\<lparr>certificate_pending := fs\<rparr>))"

definition run :: "event list \<Rightarrow> app \<Rightarrow> app" where
  "run es s = foldl (\<lambda>t e. step e t) s es"

text \<open>
  The busy flag of a form and its suspended calls go together: the flag is set exactly
  while one call is suspended, and no second call is.
\<close>

definition in_step :: "app \<Rightarrow> bool" where
  "in_step s \<longleftrightarrow>
     (if isConverting s then convert_pending s = 1 else convert_pending s = 0)
     \<and> (if isGenerating s then length (certificate_pending s) = 1
          else certificate_pending s = [])"

section \<open>The server\<close>

text \<open>
  The handlers of the two POST routes live in \<^verbatim>\<open>api/index.py\<close>, which is not among the
  sources; the architecture notes only sketch the successful path of \<^verbatim>\<open>convert\<close>
  (markdown to HTML, the HTML into \<^verbatim>\<open>HTML_TEMPLATE\<close>, \<^verbatim>\<open>pisa.CreatePDF\<close> into a new buffer, the
  buffer as the response). The definitions of this section follow the specification,
  sections 4.1 to 4.3, 6 and 7. The markdown converter, the two templates, the PDF engine
  and the default file name are parameters; the renderer's calls are recorded in a log
  that is passed through the handlers.
\<close>

type_synonym html = js_string

datatype template_kind = PlainDocument | CertificateTemplate

record collaborators =
  markdown_to_html :: "js_string \<Rightarrow> html"
  shell :: "template_kind \<Rightarrow> html \<Rightarrow> html"
  html_to_pdf :: "html \<Rightarrow> blob option"
  certificate_fragment :: "js_string \<Rightarrow> js_string \<Rightarrow> js_string \<Rightarrow> js_string \<Rightarrow> html"
  default_filename :: js_string

type_synonym render_log = "(template_kind \<times> html) list"

datatype status_class = ClientError4xx | ServerError5xx

datatype server_response = PdfResponse blob js_string | ErrorResponse status_class json

text \<open>
  Modelled from the spec: the Document Renderer of section 4.1 (its code is not among the
  sources). The fragment is embedded into the shell of the template and handed to the
  engine, which returns the bytes or fails.
\<close>

definition render :: "collaborators \<Rightarrow> html \<Rightarrow> template_kind \<Rightarrow> render_log \<Rightarrow> blob option \<times> render_log" where
  "render c fragment kind log = (html_to_pdf c (shell c kind fragment), log @ [(kind, fragment)])"

text \<open>
  Modelled from the spec: the ValidationError of sections 6 and 7 (the handlers that build
  it are not among the sources). A validation error is a 4xx response whose body is an
  object with the one field \<^verbatim>\<open>detail\<close>, a message naming the offending field (here: the
  name of the field).
\<close>

definition validation_error :: "string \<Rightarrow> server_response" where
  "validation_error field = ErrorResponse ClientError4xx (JObject [(''detail'', JString (ascii field))])"

text \<open>
  Modelled from the spec: the RenderError of section 7 (the handlers that build it are not
  among the sources): a 5xx response whose body has the field \<^verbatim>\<open>detail\<close> with a generic
  message.
\<close>

definition render_error :: server_response where
  "render_error = ErrorResponse ServerError5xx (JObject [(''detail'', JString (ascii ''PDF generation failed''))])"

text \<open>
  Modelled from the spec: reading a required field of a payload (the request models of
  \<^verbatim>\<open>api/index.py\<close> are not among the sources). A field that is absent, not a string or the
  empty string is missing.
\<close>

definition required :: "(string \<times> json) list \<Rightarrow> string \<Rightarrow> js_string option" where
  "required kvs k =
     (case map_of kvs k of
        Some (JString v) \<Rightarrow> if v = [] then None else Some v
      | _ \<Rightarrow> None)"

text \<open>
  Modelled from the spec: reading an optional field of a payload, with its default (the
  request models of \<^verbatim>\<open>api/index.py\<close> are not among the sources).
\<close>

definition optional :: "(string \<times> json) list \<Rightarrow> string \<Rightarrow> js_string \<Rightarrow> js_string" where
  "optional kvs k d = (case map_of kvs k of Some (JString v) \<Rightarrow> v | _ \<Rightarrow> d)"

text \<open>
  Modelled from the spec: the Conversion Endpoint of section 4.2, the handler of
  \<^verbatim>\<open>POST /api/convert\<close> (\<^verbatim>\<open>api/index.py\<close> is not among the sources). A missing or empty
  text is rejected; otherwise the markdown is converted, the renderer is called with the
  plain template, and the bytes are returned under the given file name or the default.
\<close>

definition convert_endpoint :: "collaborators \<Rightarrow> json \<Rightarrow> render_log \<Rightarrow> server_response \<times> render_log" where
  "convert_endpoint c payload log =
     (case payload of
        JString v \<Rightarrow> (validation_error ''markdown'', log)
      | JObject kvs \<Rightarrow>
          (case required kvs ''markdown'' of
             None \<Rightarrow> (validation_error ''markdown'', log)
           | Some md \<Rightarrow>
               (case render c (markdown_to_html c md) PlainDocument log of
                  (None, log') \<Rightarrow> (render_error, log')
                | (Some pdf, log') \<Rightarrow>
                    (PdfResponse pdf (optional kvs ''filename'' (default_filename c)), log'))))"

text \<open>
  The successful path as the architecture notes sketch it (\<^verbatim>\<open>convert\<close>, steps 2 to 5): the
  markdown is parsed, the HTML is put into the template, the engine writes into a buffer
  created for the call, and the buffer is the content of the response.
\<close>

definition convert_sketch :: "collaborators \<Rightarrow> js_string \<Rightarrow> blob option" where
  "convert_sketch c md =
     (let html = markdown_to_html c md;
          styled_html = shell c PlainDocument html
      in html_to_pdf c styled_html)"

text \<open>
  Modelled from the spec: the Certificate Endpoint of section 4.3, the handler of
  \<^verbatim>\<open>POST /api/certificate\<close> (\<^verbatim>\<open>api/index.py\<close> is not among the sources). The required
  fields must be present and the course one of the enumerated set, for which the list
  \<^verbatim>\<open>COURSES\<close> of the client stands; the values go into the certificate template, the
  renderer is called, and the bytes are returned under a name made of the participant's
  name with its white space replaced.
\<close>

definition certificate_endpoint :: "collaborators \<Rightarrow> json \<Rightarrow> render_log \<Rightarrow> server_response \<times> render_log" where
  "certificate_endpoint c payload log =
     (case payload of
        JString v \<Rightarrow> (validation_error ''participant_name'', log)
      | JObject kvs \<Rightarrow>
          (case required kvs ''participant_name'' of
             None \<Rightarrow> (validation_error ''participant_name'', log)
           | Some p \<Rightarrow>
               (case required kvs ''course_name'' of
                  None \<Rightarrow> (validation_error ''course_name'', log)
                | Some course \<Rightarrow>
                    if course \<notin> set COURSES then (validation_error ''course_name'', log)
                    else (case required kvs ''completion_date'' of
                            None \<Rightarrow> (validation_error ''completion_date'', log)
                          | Some d \<Rightarrow>
                              (let i = optional kvs ''instructor_name'' (ascii ''IntelliForge AI Team'')
                               in case render c (certificate_fragment c p course d i)
                                         CertificateTemplate log of
                                    (None, log') \<Rightarrow> (render_error, log')
                                  | (Some pdf, log') \<Rightarrow>
                                      (PdfResponse pdf (cert_download_name p), log'))))))"

section \<open>Sample inputs\<close>

text \<open>
  A page in production on the first of January 2026, the same page with a name and a
  course entered, a response carrying a small document, and collaborators for the server.
\<close>

definition sample_page :: app where
  "sample_page = init True (ascii ''2026-01-01'') [1, 2]"

definition sample_filled :: app where
  "sample_filled =
     run [ChangeCertField Participant_name (ascii ''Jane Doe''),
          ChangeCertField Course_name (ascii ''Full-Stack AI Development'')] sample_page"

definition sample_pdf :: blob where
  "sample_pdf = [0x25, 0x50, 0x44, 0x46]"

definition sample_ok :: response where
  "sample_ok = \<lparr>status = 200, json_result = JsonRejected, blob_result = BlobResolved sample_pdf\<rparr>"

definition sample_collaborators :: collaborators where
  "sample_collaborators =
     \<lparr>markdown_to_html = (\<lambda>m. m), shell = (\<lambda>k h. h),
      html_to_pdf = (\<lambda>h. Some sample_pdf),
      certificate_fragment = (\<lambda>p course d i. p @ course @ d @ i),
      default_filename = ascii ''document.pdf''\<rparr>"

section \<open>Properties of the string functions\<close>

lemma concat_blocks: "concat (blocks p) = p"
  by (induction p rule: blocks.induct) simp_all

lemma blocks_nonempty: "b \<in> set (blocks p) \<Longrightarrow> b \<noteq> []"
  by (induction p rule: blocks.induct) (auto split: if_splits)

lemma blocks_uniform:
  "b \<in> set (blocks p) \<Longrightarrow> c \<in> set b \<Longrightarrow> is_white_space c = is_white_space (hd b)"
  by (induction p rule: blocks.induct) (auto split: if_splits dest: set_takeWhileD)

lemma blocks_Nil_iff: "blocks p = [] \<longleftrightarrow> p = []"
  by (cases p) simp_all

lemma successively_Cons_hd:
  "successively P (x # xs) \<longleftrightarrow> xs = [] \<or> (P x (hd xs) \<and> successively P xs)"
  by (cases xs) simp_all

text \<open>
  The blocks are maximal: each is of one kind, and neighbours are of different kinds.
\<close>

lemma blocks_alternate:
  "successively (\<lambda>a b. is_white_space (hd a) \<noteq> is_white_space (hd b)) (blocks p)"
proof (induction p rule: blocks.induct)
  case 1
  show ?case by simp
next
  case (2 c cs)
  show ?case
  proof (cases "is_white_space c")
    case True
    let ?rest = "dropWhile is_white_space cs"
    have "?rest \<noteq> [] \<Longrightarrow> \<not> is_white_space (hd (hd (blocks ?rest)))"
      using hd_dropWhile [of is_white_space cs] by (cases ?rest) simp_all
    with True 2(1) show ?thesis
      by (auto simp: successively_Cons_hd blocks_Nil_iff)
  next
    case False
    let ?rest = "dropWhile (\<lambda>d. \<not> is_white_space d) cs"
    have "?rest \<noteq> [] \<Longrightarrow> is_white_space (hd (hd (blocks ?rest)))"
      using hd_dropWhile [of "\<lambda>d. \<not> is_white_space d" cs] by (cases ?rest) simp_all
    with False 2(2) show ?thesis
      by (auto simp: successively_Cons_hd blocks_Nil_iff)
  qed
qed

lemma replace_ws_plain_prefix:
  "\<forall>d \<in> set xs. \<not> is_white_space d \<Longrightarrow> replace_ws (xs @ ys) = xs @ replace_ws ys"
  by (induction xs) simp_all

lemma replace_ws_skip_plain:
  "replace_ws cs =
     takeWhile (\<lambda>d. \<not> is_white_space d) cs
       @ replace_ws (dropWhile (\<lambda>d. \<not> is_white_space d) cs)"
proof -
  let ?P = "\<lambda>d. \<not> is_white_space d"
  have "replace_ws (takeWhile ?P cs @ dropWhile ?P cs) =
          takeWhile ?P cs @ replace_ws (dropWhile ?P cs)"
    by (rule replace_ws_plain_prefix) (auto dest: set_takeWhileD)
  then show ?thesis by simp
qed

lemma replace_ws_spec_sanitize: "replace_ws p = spec_sanitize p"
proof (induction p rule: blocks.induct)
  case 1
  show ?case by (simp add: spec_sanitize_def)
next
  case (2 c cs)
  show ?case
  proof (cases "is_white_space c")
    case True
    with 2 show ?thesis by (simp add: spec_sanitize_def)
  next
    case False
    with 2 have "replace_ws (dropWhile (\<lambda>d. \<not> is_white_space d) cs) =
                   spec_sanitize (dropWhile (\<lambda>d. \<not> is_white_space d) cs)"
      by simp
    with False show ?thesis
      using replace_ws_skip_plain [of cs] by (simp add: spec_sanitize_def)
  qed
qed

text \<open>
  Claim C6. For every participant name \<open>p\<close> the name under which the certificate is saved
  is \<open>Certificate_\<close>, then \<open>p\<close> with each maximal run of white space replaced by a single
  underscore, then \<open>.pdf\<close>; for the name \<open>Jane Doe\<close> this is \<open>Certificate_Jane_Doe.pdf\<close>.
\<close>

theorem cert_download_name_spec:
  "cert_download_name p = ascii ''Certificate_'' @ spec_sanitize p @ ascii ''.pdf''
   \<and> cert_download_name (ascii ''Jane Doe'') = ascii ''Certificate_Jane_Doe.pdf''"
  by (simp add: cert_download_name_def replace_ws_spec_sanitize [symmetric]
        ascii_def is_white_space_def)

section \<open>Facts about the sample inputs\<close>

lemma sample_filled_form:
  "certForm sample_filled =
     \<lparr>participant_name = ascii ''Jane Doe'', course_name = ascii ''Full-Stack AI Development'',
      completion_date = ascii ''2026-01-01'', instructor_name = ascii ''IntelliForge AI Team''\<rparr>"
  by (simp add: sample_filled_def sample_page_def run_def init_def updateCertField_def)

lemma sample_filled_valid: "validate (certForm sample_filled) = None"
  by (simp add: sample_filled_form validate_def trim_def ascii_def is_white_space_def)

lemma sample_filled_idle:
  "\<not> isGenerating sample_filled" "requests sample_filled = []" "env_PROD sample_filled"
  by (simp_all add: sample_filled_def sample_page_def run_def init_def updateCertField_def)

lemma sample_page_invalid:
  "validate (certForm sample_page) = Some (Error (ascii ''Please enter participant name''))"
  by (simp add: sample_page_def init_def validate_def trim_def)

lemma sample_page_idle:
  "\<not> isConverting sample_page" "requests sample_page = []" "env_PROD sample_page"
  "markdown sample_page = initial_markdown"
  by (simp_all add: sample_page_def init_def)

section \<open>Properties of the download\<close>

lemma le_foldr_max: "n \<in> set ns \<Longrightarrow> n \<le> foldr max ns (0::nat)"
  by (induction ns) (auto simp: max_def)

lemma fresh_notin: "fresh ns \<notin> set ns"
  using le_foldr_max [of "fresh ns" ns] by (auto simp: fresh_def)

lemma filter_revoke:
  "u \<notin> fst ` set reg \<Longrightarrow> filter (\<lambda>(v, b). v \<noteq> u) (reg @ [(u, c)]) = reg"
  by (induction reg) auto

lemma map_of_fresh:
  "u \<notin> fst ` set reg \<Longrightarrow> map_of (reg @ [(u, c)]) u = Some c"
  by (induction reg) auto


lemma download_result:
  "download b name s = (None, s\<lparr>saved := saved s @ [(name, Some b)]\<rparr>)"
proof -
  let ?u = "fresh (map fst (object_urls s))"
  have u: "?u \<notin> fst ` set (object_urls s)"
    using fresh_notin [of "map fst (object_urls s)"] by simp
  have a: "fresh (body_children s) \<notin> set (body_children s)"
    by (rule fresh_notin)
  show ?thesis
    using a filter_revoke [OF u] map_of_fresh [OF u]
    by (simp add: download_def createObjectURL_def createElement_def appendChild_def
          click_def revokeObjectURL_def removeChild_def Let_def)
qed

lemma receive_cases:
  "receive out name s = (Some e, s') \<Longrightarrow> s' = s"
  "receive out name s = (None, s') \<Longrightarrow>
     \<exists>r b. out = FetchResolved r \<and> ok r \<and> blob_result r = BlobResolved b
           \<and> s' = s\<lparr>saved := saved s @ [(name, Some b)]\<rparr>"
  by (auto simp: receive_def download_result
        split: fetch_outcome.splits if_splits blob_outcome.splits)




text \<open>
  Claim C9. Whatever the markdown, the request of a conversion carries the file name
  \<open>markdown-export.pdf\<close> beside the markdown, and whatever comes back, the handler saves
  nothing or one file, under the name \<open>markdown-export.pdf\<close>.
\<close>

theorem convert_filename_constant:
  "requests (convertToPdf_call s) =
     requests s @
       [\<lparr>url = getApiUrl (env_PROD s) ''/api/convert'', http_method = ''POST'',
         headers = [(''Content-Type'', ''application/json'')],
         body = JObject [(''markdown'', JString (markdown s)),
                         (''filename'', JString (ascii ''markdown-export.pdf''))]\<rparr>]
   \<and> (saved (convertToPdf_settle out s) = saved s
        \<or> (\<exists>b. saved (convertToPdf_settle out s)
                  = saved s @ [(ascii ''markdown-export.pdf'', b)]))"
proof -
  obtain thrown s1 where r: "receive out (ascii ''markdown-export.pdf'') s = (thrown, s1)"
    by (cases "receive out (ascii ''markdown-export.pdf'') s")
  have "saved s1 = saved s \<or> (\<exists>b. saved s1 = saved s @ [(ascii ''markdown-export.pdf'', b)])"
    using r receive_cases [of out "ascii ''markdown-export.pdf''" s]
    by (cases thrown) auto
  moreover have "saved (convertToPdf_settle out s) = saved s1"
    using r by (simp add: convertToPdf_settle_def split: option.splits)
  ultimately show ?thesis
    by (simp add: convertToPdf_call_def convert_request_def)
qed

section \<open>Properties of the certificate form\<close>

lemma generateCertificate_call_invalid:
  "validate (certForm s) = Some e \<Longrightarrow>
     generateCertificate_call s =
       s\<lparr>isGenerating := False, certError := Some (message e), certSuccess := False\<rparr>"
  by (simp add: generateCertificate_call_def)

lemma generateCertificate_call_valid:
  "validate (certForm s) = None \<Longrightarrow>
     generateCertificate_call s =
       s\<lparr>isGenerating := True, certError := None, certSuccess := False,
         requests := requests s @ [certificate_request (env_PROD s) (certForm s)],
         certificate_pending := certificate_pending s @ [certForm s]\<rparr>"
  by (simp add: generateCertificate_call_def)

lemma trim_Nil_imp: "trim p \<noteq> [] \<Longrightarrow> p \<noteq> []"
  by (auto simp: trim_def)

text \<open>The checks of the client look at emptiness only, not at the list of courses.\<close>

lemma validate_checks_emptiness_only:
  "validate f = None \<longleftrightarrow>
     trim (participant_name f) \<noteq> [] \<and> course_name f \<noteq> [] \<and> completion_date f \<noteq> []"
  by (simp add: validate_def)

text \<open>
  Claim C5. A call of \<^verbatim>\<open>generateCertificate\<close> on a form whose participant name is blank after
  trimming, whose course is empty or whose date is empty ends with an error message for
  the first such field (participant name, course, date, in this order) and without a
  call of \<^verbatim>\<open>fetch\<close> and without a suspended call; a request is sent only if all three
  fields are non-empty, and then it is the request for the form.
\<close>

theorem certificate_validation_blocks_fetch:
  "(trim (participant_name (certForm s)) = [] \<longrightarrow>
      certError (generateCertificate_call s) = Some (ascii ''Please enter participant name'')
      \<and> requests (generateCertificate_call s) = requests s)
   \<and> (trim (participant_name (certForm s)) \<noteq> [] \<and> course_name (certForm s) = [] \<longrightarrow>
      certError (generateCertificate_call s) = Some (ascii ''Please select a course'')
      \<and> requests (generateCertificate_call s) = requests s)
   \<and> (trim (participant_name (certForm s)) \<noteq> [] \<and> course_name (certForm s) \<noteq> []
        \<and> completion_date (certForm s) = [] \<longrightarrow>
      certError (generateCertificate_call s) = Some (ascii ''Please select a date'')
      \<and> requests (generateCertificate_call s) = requests s)
   \<and> (trim (participant_name (certForm s)) = [] \<or> course_name (certForm s) = []
        \<or> completion_date (certForm s) = [] \<longrightarrow>
      validate (certForm s) \<noteq> None
      \<and> certError (generateCertificate_call s) \<noteq> None
      \<and> requests (generateCertificate_call s) = requests s
      \<and> certificate_pending (generateCertificate_call s) = certificate_pending s)
   \<and> (requests (generateCertificate_call s) \<noteq> requests s \<longrightarrow>
      participant_name (certForm s) \<noteq> [] \<and> course_name (certForm s) \<noteq> []
      \<and> completion_date (certForm s) \<noteq> []
      \<and> requests (generateCertificate_call s)
          = requests s @ [certificate_request (env_PROD s) (certForm s)])"
proof (cases "validate (certForm s)")
  case None
  then have "trim (participant_name (certForm s)) \<noteq> [] \<and> course_name (certForm s) \<noteq> []
             \<and> completion_date (certForm s) \<noteq> []"
    by (simp add: validate_def split: if_splits)
  then show ?thesis
    using generateCertificate_call_valid [OF None] by (auto dest: trim_Nil_imp)
next
  case (Some e)
  then show ?thesis
    using generateCertificate_call_invalid [OF Some]
    by (auto simp: validate_def split: if_splits)
qed

theorem certificate_validation_blocks_fetch_witness:
  "trim (participant_name (certForm
      (step (ChangeCertField Participant_name (ascii ''   '')) sample_page))) = []
   \<and> certError (generateCertificate_call
        (step (ChangeCertField Participant_name (ascii ''   '')) sample_page))
       = Some (ascii ''Please enter participant name'')
   \<and> requests (generateCertificate_call
        (step (ChangeCertField Participant_name (ascii ''   '')) sample_page)) = []
   \<and> certError (generateCertificate_call
        (step (ChangeCertField Course_name []) sample_filled))
       = Some (ascii ''Please select a course'')
   \<and> requests (generateCertificate_call
        (step (ChangeCertField Course_name []) sample_filled)) = []
   \<and> certError (generateCertificate_call
        (step (ChangeCertField Completion_date []) sample_filled))
       = Some (ascii ''Please select a date'')
   \<and> requests (generateCertificate_call
        (step (ChangeCertField Completion_date []) sample_filled)) = []
   \<and> requests (generateCertificate_call sample_filled)
       = [certificate_request True (certForm sample_filled)]"
proof -
  let ?blank = "step (ChangeCertField Participant_name (ascii ''   '')) sample_page"
  let ?course = "step (ChangeCertField Course_name []) sample_filled"
  let ?date = "step (ChangeCertField Completion_date []) sample_filled"
  have jane: "trim (ascii ''Jane Doe'') \<noteq> []"
    by (simp add: trim_def ascii_def is_white_space_def)
  have blank: "trim (participant_name (certForm ?blank)) = []" "requests ?blank = []"
    by (simp_all add: sample_page_def init_def updateCertField_def trim_def ascii_def
          is_white_space_def)
  have course: "trim (participant_name (certForm ?course)) \<noteq> []"
    "course_name (certForm ?course) = []" "requests ?course = []"
    using jane
    by (simp_all add: updateCertField_def sample_filled_form sample_filled_idle)
  have date: "trim (participant_name (certForm ?date)) \<noteq> []"
    "course_name (certForm ?date) \<noteq> []" "completion_date (certForm ?date) = []"
    "requests ?date = []"
    using jane
    by (simp_all add: updateCertField_def sample_filled_form sample_filled_idle ascii_def)
  have 1: "certError (generateCertificate_call ?blank)
             = Some (ascii ''Please enter participant name'')
           \<and> requests (generateCertificate_call ?blank) = requests ?blank"
    using certificate_validation_blocks_fetch [of ?blank] blank(1) by blast
  have 2: "certError (generateCertificate_call ?course) = Some (ascii ''Please select a course'')
           \<and> requests (generateCertificate_call ?course) = requests ?course"
    using certificate_validation_blocks_fetch [of ?course] course(1,2) by blast
  have 3: "certError (generateCertificate_call ?date) = Some (ascii ''Please select a date'')
           \<and> requests (generateCertificate_call ?date) = requests ?date"
    using certificate_validation_blocks_fetch [of ?date] date(1,2,3) by blast
  have "requests (generateCertificate_call sample_filled) \<noteq> requests sample_filled"
    using sample_filled_valid by (simp add: generateCertificate_call_valid)
  then have 4: "requests (generateCertificate_call sample_filled)
          = requests sample_filled
              @ [certificate_request (env_PROD sample_filled) (certForm sample_filled)]"
    using certificate_validation_blocks_fetch [of sample_filled] by blast
  from blank 1 2 3 4 course(3) date(4) sample_filled_idle(2,3)
  show ?thesis by (simp del: step.simps)
qed

lemma receive_certForm:
  "receive out name s = (thrown, s1) \<Longrightarrow> certForm s1 = certForm s"
  by (cases thrown) (auto dest: receive_cases)

lemma certForm_convertToPdf_settle: "certForm (convertToPdf_settle out s) = certForm s"
proof -
  obtain thrown s1 where r: "receive out (ascii ''markdown-export.pdf'') s = (thrown, s1)"
    by (cases "receive out (ascii ''markdown-export.pdf'') s")
  then show ?thesis
    using receive_certForm [OF r]
    by (simp add: convertToPdf_settle_def split: option.splits)
qed

lemma certForm_generateCertificate_settle:
  "certForm (generateCertificate_settle out f s) = certForm s"
proof -
  obtain thrown s1 where r: "receive out (cert_download_name (participant_name f)) s = (thrown, s1)"
    by (cases "receive out (cert_download_name (participant_name f)) s")
  then show ?thesis
    using receive_certForm [OF r]
    by (simp add: generateCertificate_settle_def split: option.splits)
qed

lemma certForm_generateCertificate_call: "certForm (generateCertificate_call s) = certForm s"
  by (simp add: generateCertificate_call_def Let_def split: option.splits)

lemma certForm_step:
  "certForm (step e s) =
     (case e of ChangeCertField field v \<Rightarrow> set_field field v (certForm s) | _ \<Rightarrow> certForm s)"
  by (cases e)
     (simp_all add: convertToPdf_call_def certForm_generateCertificate_call updateCertField_def
        certForm_convertToPdf_settle certForm_generateCertificate_settle
        split: nat.splits list.splits)

text \<open>
  With a cleared instructor name the preview card shows the default name, while the form,
  and with it the request, holds the empty string.
\<close>

lemma preview_shows_default_only:
  "preview_instructor (certForm (updateCertField Instructor_name [] s))
     = ascii ''IntelliForge AI Team''
   \<and> instructor_name (certForm (updateCertField Instructor_name [] s)) = []"
  by (simp add: preview_instructor_def updateCertField_def)

text \<open>
  Claim C10. The body of the certificate request is the object of the four fields of the
  form as they stand when the form is submitted. A cleared instructor name stays the
  empty string: the default name is the value in the initial state, an event changes the
  instructor name only if it is an edit of that field, and then to the value typed. Every
  edit of a field clears the error and the success message of the form.
\<close>

theorem certificate_body_is_form:
  "(validate (certForm s) = None \<longrightarrow>
      requests (generateCertificate_call s) =
        requests s @
          [\<lparr>url = getApiUrl (env_PROD s) ''/api/certificate'', http_method = ''POST'',
            headers = [(''Content-Type'', ''application/json'')],
            body = JObject [(''participant_name'', JString (participant_name (certForm s))),
                            (''course_name'', JString (course_name (certForm s))),
                            (''completion_date'', JString (completion_date (certForm s))),
                            (''instructor_name'', JString (instructor_name (certForm s)))]\<rparr>])
   \<and> instructor_name (certForm (updateCertField Instructor_name [] s)) = []
   \<and> instructor_name (certForm (init p today page)) = ascii ''IntelliForge AI Team''
   \<and> instructor_name (certForm (step e s)) =
        (case e of ChangeCertField Instructor_name v \<Rightarrow> v | _ \<Rightarrow> instructor_name (certForm s))
   \<and> certError (updateCertField field v s) = None
   \<and> certSuccess (updateCertField field v s) = False"
proof -
  have "instructor_name (certForm (step e s)) =
        (case e of ChangeCertField Instructor_name v \<Rightarrow> v | _ \<Rightarrow> instructor_name (certForm s))"
  proof (cases e)
    case (ChangeCertField field' v')
    then show ?thesis by (cases field') (simp_all add: updateCertField_def)
  qed (use certForm_step [of e s] in \<open>simp_all del: step.simps\<close>)
  then show ?thesis
    by (simp add: generateCertificate_call_valid certificate_request_def updateCertField_def
          init_def)
qed

theorem certificate_body_is_form_witness:
  "validate (certForm (updateCertField Instructor_name [] sample_filled)) = None
   \<and> requests (generateCertificate_call (updateCertField Instructor_name [] sample_filled))
       = [\<lparr>url = ''/api/certificate'', http_method = ''POST'',
           headers = [(''Content-Type'', ''application/json'')],
           body = JObject [(''participant_name'', JString (ascii ''Jane Doe'')),
                           (''course_name'', JString (ascii ''Full-Stack AI Development'')),
                           (''completion_date'', JString (ascii ''2026-01-01'')),
                           (''instructor_name'', JString [])]\<rparr>]"
proof -
  let ?s = "updateCertField Instructor_name [] sample_filled"
  have form: "certForm ?s = (certForm sample_filled)\<lparr>instructor_name := []\<rparr>"
    by (simp add: updateCertField_def)
  have a: "validate (certForm ?s) = None"
    by (simp add: form sample_filled_form validate_def trim_def ascii_def is_white_space_def)
  have b: "requests ?s = []" "env_PROD ?s"
    by (simp_all add: updateCertField_def sample_filled_idle)
  from certificate_body_is_form [where s = ?s] a
  have "requests (generateCertificate_call ?s) =
        requests ?s @
          [\<lparr>url = getApiUrl (env_PROD ?s) ''/api/certificate'', http_method = ''POST'',
            headers = [(''Content-Type'', ''application/json'')],
            body = JObject [(''participant_name'', JString (participant_name (certForm ?s))),
                            (''course_name'', JString (course_name (certForm ?s))),
                            (''completion_date'', JString (completion_date (certForm ?s))),
                            (''instructor_name'', JString (instructor_name (certForm ?s)))]\<rparr>]"
    by blast
  with a b show ?thesis
    by (simp add: form sample_filled_form getApiUrl_def)
qed

section \<open>One request at a time\<close>

lemma convertToPdf_settle_cases:
  "(\<exists>e. convertToPdf_settle out s = s\<lparr>error := Some e, isConverting := False\<rparr>)
   \<or> (\<exists>b. convertToPdf_settle out s =
            s\<lparr>saved := saved s @ [(ascii ''markdown-export.pdf'', Some b)],
              isConverting := False\<rparr>)"
proof -
  obtain thrown s1 where r: "receive out (ascii ''markdown-export.pdf'') s = (thrown, s1)"
    by (cases "receive out (ascii ''markdown-export.pdf'') s")
  show ?thesis
  proof (cases thrown)
    case None
    with r have "receive out (ascii ''markdown-export.pdf'') s = (None, s1)" by simp
    from receive_cases(2) [OF this] r None show ?thesis
      by (auto simp: convertToPdf_settle_def)
  next
    case (Some e)
    with r have "receive out (ascii ''markdown-export.pdf'') s = (Some e, s1)" by simp
    from receive_cases(1) [OF this] r Some show ?thesis
      by (auto simp: convertToPdf_settle_def)
  qed
qed

lemma generateCertificate_settle_cases:
  "(\<exists>e. generateCertificate_settle out f s = s\<lparr>certError := Some e, isGenerating := False\<rparr>)
   \<or> (\<exists>b. generateCertificate_settle out f s =
            s\<lparr>saved := saved s @ [(cert_download_name (participant_name f), Some b)],
              certSuccess := True, isGenerating := False\<rparr>)"
proof -
  obtain thrown s1
    where r: "receive out (cert_download_name (participant_name f)) s = (thrown, s1)"
    by (cases "receive out (cert_download_name (participant_name f)) s")
  show ?thesis
  proof (cases thrown)
    case None
    with r have "receive out (cert_download_name (participant_name f)) s = (None, s1)" by simp
    from receive_cases(2) [OF this] r None show ?thesis
      by (auto simp: generateCertificate_settle_def)
  next
    case (Some e)
    with r have "receive out (cert_download_name (participant_name f)) s = (Some e, s1)" by simp
    from receive_cases(1) [OF this] r Some show ?thesis
      by (auto simp: generateCertificate_settle_def)
  qed
qed

lemma convertToPdf_settle_frame:
  "isConverting (convertToPdf_settle out t) = False"
  "convert_pending (convertToPdf_settle out t) = convert_pending t"
  "isGenerating (convertToPdf_settle out t) = isGenerating t"
  "certificate_pending (convertToPdf_settle out t) = certificate_pending t"
  "requests (convertToPdf_settle out t) = requests t"
  "env_PROD (convertToPdf_settle out t) = env_PROD t"
  "markdown (convertToPdf_settle out t) = markdown t"
  using convertToPdf_settle_cases [of out t] by (elim disjE exE, simp_all)+

lemma generateCertificate_settle_frame:
  "isGenerating (generateCertificate_settle out f t) = False"
  "certificate_pending (generateCertificate_settle out f t) = certificate_pending t"
  "isConverting (generateCertificate_settle out f t) = isConverting t"
  "convert_pending (generateCertificate_settle out f t) = convert_pending t"
  "requests (generateCertificate_settle out f t) = requests t"
  "env_PROD (generateCertificate_settle out f t) = env_PROD t"
  "certForm (generateCertificate_settle out f t) = certForm t"
  using generateCertificate_settle_cases [of out f t] by (elim disjE exE, simp_all)+

lemma in_step_init: "in_step (init p today page)"
  by (simp add: in_step_def init_def)

lemma in_step_ClickDownload: "in_step s \<Longrightarrow> in_step (step ClickDownload s)"
  by (cases "isConverting s") (simp_all add: in_step_def convertToPdf_call_def)

lemma in_step_SubmitCertificate: "in_step s \<Longrightarrow> in_step (step SubmitCertificate s)"
  by (cases "isGenerating s"; cases "validate (certForm s)")
     (simp_all add: in_step_def generateCertificate_call_valid generateCertificate_call_invalid)

lemma in_step_ChangeMarkdown: "in_step s \<Longrightarrow> in_step (step (ChangeMarkdown v) s)"
  by (simp add: in_step_def)

lemma in_step_ChangeCertField: "in_step s \<Longrightarrow> in_step (step (ChangeCertField field v) s)"
  by (simp add: in_step_def updateCertField_def)

lemma in_step_ConvertSettled: "in_step s \<Longrightarrow> in_step (step (ConvertSettled out) s)"
  by (cases "isConverting s"; cases "convert_pending s")
     (simp_all add: in_step_def convertToPdf_settle_frame)

lemma in_step_CertificateSettled: "in_step s \<Longrightarrow> in_step (step (CertificateSettled out) s)"
  by (cases "isGenerating s"; cases "certificate_pending s")
     (simp_all add: in_step_def generateCertificate_settle_frame)

lemma in_step_step: "in_step s \<Longrightarrow> in_step (step e s)"
  by (cases e)
     (simp_all only: in_step_ClickDownload in_step_SubmitCertificate in_step_ChangeMarkdown
        in_step_ChangeCertField in_step_ConvertSettled in_step_CertificateSettled)

lemma run_snoc: "run (es @ [e]) s = step e (run es s)"
  by (simp add: run_def)

lemma in_step_run: "in_step s \<Longrightarrow> in_step (run es s)"
proof (induction es rule: rev_induct)
  case Nil
  then show ?case by (simp add: run_def)
next
  case (snoc e es)
  then show ?case by (simp only: run_snoc in_step_step)
qed

lemma in_step_reachable: "in_step (run es (init p today page))"
  by (rule in_step_run) (rule in_step_init)

text \<open>
  Claim C3. In every state the page can reach from its initial state, each form has at
  most one suspended call, that is, at most one request in flight. While the busy flag
  of a form is set, a click on its button (a submission of its form) changes nothing; so
  two clicks in a row on the idle download button send exactly one request, and so do two
  submissions in a row of an idle, valid certificate form.
\<close>

theorem at_most_one_in_flight:
  "convert_pending (run es (init p today page)) \<le> 1
   \<and> length (certificate_pending (run es (init p today page))) \<le> 1
   \<and> (isConverting s \<longrightarrow> step ClickDownload s = s)
   \<and> (isGenerating s \<longrightarrow> step SubmitCertificate s = s)
   \<and> (\<not> isConverting s \<longrightarrow>
        requests (step ClickDownload (step ClickDownload s))
          = requests s @ [convert_request (env_PROD s) (markdown s)])
   \<and> (\<not> isGenerating s \<and> validate (certForm s) = None \<longrightarrow>
        requests (step SubmitCertificate (step SubmitCertificate s))
          = requests s @ [certificate_request (env_PROD s) (certForm s)])"
proof -
  let ?s = "run es (init p today page)"
  have inv: "in_step ?s" by (rule in_step_reachable)
  have 1: "convert_pending ?s \<le> 1"
    using inv by (cases "isConverting ?s") (simp_all add: in_step_def)
  have 2: "length (certificate_pending ?s) \<le> 1"
    using inv by (cases "isGenerating ?s") (simp_all add: in_step_def)
  have 3: "\<not> isConverting s \<longrightarrow>
        requests (step ClickDownload (step ClickDownload s))
          = requests s @ [convert_request (env_PROD s) (markdown s)]"
    by (simp add: convertToPdf_call_def)
  have 4: "\<not> isGenerating s \<and> validate (certForm s) = None \<longrightarrow>
        requests (step SubmitCertificate (step SubmitCertificate s))
          = requests s @ [certificate_request (env_PROD s) (certForm s)]"
    by (simp add: generateCertificate_call_valid)
  from 1 2 3 4 show ?thesis by simp
qed

theorem at_most_one_in_flight_witness:
  "convert_pending (run [ClickDownload, ClickDownload] sample_page) \<le> 1
   \<and> isConverting (step ClickDownload sample_page)
   \<and> step ClickDownload (step ClickDownload sample_page) = step ClickDownload sample_page
   \<and> \<not> isConverting sample_page
   \<and> requests (step ClickDownload (step ClickDownload sample_page))
       = [convert_request True initial_markdown]
   \<and> isGenerating (step SubmitCertificate sample_filled)
   \<and> step SubmitCertificate (step SubmitCertificate sample_filled)
       = step SubmitCertificate sample_filled
   \<and> \<not> isGenerating sample_filled
   \<and> requests (step SubmitCertificate (step SubmitCertificate sample_filled))
       = [certificate_request True (certForm sample_filled)]"
proof -
  note T = at_most_one_in_flight [where p = True and today = "ascii ''2026-01-01''"
             and page = "[1, 2]", folded sample_page_def]
  note a = sample_page_idle
  note b = sample_filled_idle
  have c: "isConverting (step ClickDownload sample_page)"
    using a by (simp add: convertToPdf_call_def)
  have d: "isGenerating (step SubmitCertificate sample_filled)"
    using b sample_filled_valid by (simp add: generateCertificate_call_valid)
  have 1: "convert_pending (run [ClickDownload, ClickDownload] sample_page) \<le> 1"
    using T [where es = "[ClickDownload, ClickDownload]" and s = sample_page] by blast
  have 2: "step ClickDownload (step ClickDownload sample_page) = step ClickDownload sample_page"
    using T [where es = "[]" and s = "step ClickDownload sample_page"] c by blast
  have 3: "requests (step ClickDownload (step ClickDownload sample_page))
             = requests sample_page @ [convert_request (env_PROD sample_page) (markdown sample_page)]"
    using T [where es = "[]" and s = sample_page] a(1) by blast
  have 4: "step SubmitCertificate (step SubmitCertificate sample_filled)
             = step SubmitCertificate sample_filled"
    using T [where es = "[]" and s = "step SubmitCertificate sample_filled"] d by blast
  have 5: "requests (step SubmitCertificate (step SubmitCertificate sample_filled))
             = requests sample_filled
                 @ [certificate_request (env_PROD sample_filled) (certForm sample_filled)]"
    using T [where es = "[]" and s = sample_filled] b(1) sample_filled_valid by blast
  from 1 2 4 c d a(1) b(1) 3 [unfolded a(2) a(4)] 5 [unfolded b(2)] a(3) b(3)
  show ?thesis by (simp del: step.simps)
qed

text \<open>
  Claim C4. However the awaited promises settle (the fetch rejects, the response is not
  \<^verbatim>\<open>ok\<close>, the blob does not arrive, or the download goes through), a resumed call of either
  handler ends with the busy flag of its form cleared; a certificate call whose checks
  throw ends so at once. In every reachable state a set busy flag comes with exactly one
  suspended call, whose resumption clears it. Once a call has ended, the next click or
  submission is accepted: it sends a request.
\<close>

theorem busy_flag_cleared:
  "isConverting (convertToPdf_settle out s) = False
   \<and> isGenerating (generateCertificate_settle out f s) = False
   \<and> (validate (certForm s) \<noteq> None \<longrightarrow> isGenerating (generateCertificate_call s) = False)
   \<and> (isConverting (run es (init p today page)) \<longrightarrow>
        convert_pending (run es (init p today page)) = 1
        \<and> isConverting (step (ConvertSettled out) (run es (init p today page))) = False)
   \<and> (isGenerating (run es (init p today page)) \<longrightarrow>
        length (certificate_pending (run es (init p today page))) = 1
        \<and> isGenerating (step (CertificateSettled out) (run es (init p today page))) = False)
   \<and> requests (step ClickDownload (convertToPdf_settle out s))
        = requests s @ [convert_request (env_PROD s) (markdown s)]
   \<and> (validate (certForm s) = None \<longrightarrow>
        requests (step SubmitCertificate (generateCertificate_settle out f s))
          = requests s @ [certificate_request (env_PROD s) (certForm s)])"
proof -
  let ?s = "run es (init p today page)"
  have inv: "in_step ?s" by (rule in_step_reachable)
  have 1: "isConverting ?s \<longrightarrow> convert_pending ?s = 1
             \<and> isConverting (step (ConvertSettled out) ?s) = False"
    using inv by (cases "isConverting ?s") (simp_all add: in_step_def convertToPdf_settle_frame)
  have 2: "isGenerating ?s \<longrightarrow> length (certificate_pending ?s) = 1
             \<and> isGenerating (step (CertificateSettled out) ?s) = False"
    using inv
    by (cases "isGenerating ?s"; cases "certificate_pending ?s")
       (simp_all add: in_step_def generateCertificate_settle_frame)
  have 3: "validate (certForm s) \<noteq> None \<longrightarrow> isGenerating (generateCertificate_call s) = False"
    by (cases "validate (certForm s)") (simp_all add: generateCertificate_call_invalid)
  have 4: "requests (step ClickDownload (convertToPdf_settle out s))
        = requests s @ [convert_request (env_PROD s) (markdown s)]"
    by (simp add: convertToPdf_settle_frame convertToPdf_call_def)
  have 5: "validate (certForm s) = None \<longrightarrow>
        requests (step SubmitCertificate (generateCertificate_settle out f s))
          = requests s @ [certificate_request (env_PROD s) (certForm s)]"
    by (simp add: generateCertificate_settle_frame generateCertificate_call_valid)
  from 1 2 3 4 5 show ?thesis
    by (simp only: convertToPdf_settle_frame generateCertificate_settle_frame simp_thms)
qed

theorem busy_flag_cleared_witness:
  "isConverting (run [ClickDownload] sample_page)
   \<and> convert_pending (run [ClickDownload] sample_page) = 1
   \<and> isConverting (step (ConvertSettled (FetchRejected (ascii ''Failed to fetch'')))
         (run [ClickDownload] sample_page)) = False
   \<and> validate (certForm sample_page) \<noteq> None
   \<and> isGenerating (generateCertificate_call sample_page) = False
   \<and> isGenerating (run [SubmitCertificate] sample_filled)
   \<and> isGenerating (step (CertificateSettled (FetchResolved sample_ok))
         (run [SubmitCertificate] sample_filled)) = False
   \<and> validate (certForm sample_filled) = None
   \<and> requests (step SubmitCertificate
         (generateCertificate_settle (FetchResolved sample_ok) (certForm sample_filled)
            sample_filled))
       = [certificate_request True (certForm sample_filled)]"
proof -
  note T = busy_flag_cleared [where p = True and today = "ascii ''2026-01-01''"
             and page = "[1, 2]", folded sample_page_def]
  note b = sample_filled_idle
  have a: "isConverting (run [ClickDownload] sample_page)"
    by (simp add: run_def sample_page_def init_def convertToPdf_call_def)
  have c: "isGenerating (run [SubmitCertificate] sample_filled)"
    using sample_filled_valid b(1)
    by (simp add: run_def generateCertificate_call_valid)
  have c': "run [SubmitCertificate] sample_filled
              = run [ChangeCertField Participant_name (ascii ''Jane Doe''),
                     ChangeCertField Course_name (ascii ''Full-Stack AI Development''),
                     SubmitCertificate] sample_page"
    by (simp add: sample_filled_def run_def)
  have 1: "convert_pending (run [ClickDownload] sample_page) = 1
           \<and> isConverting (step (ConvertSettled (FetchRejected (ascii ''Failed to fetch'')))
                 (run [ClickDownload] sample_page)) = False"
    using T [where out = "FetchRejected (ascii ''Failed to fetch'')" and s = sample_page
               and f = "certForm sample_page" and es = "[ClickDownload]"] a
    by blast
  have 2: "isGenerating (generateCertificate_call sample_page) = False"
    using T [where out = "FetchResolved sample_ok" and s = sample_page
               and f = "certForm sample_page" and es = "[]"]
      sample_page_invalid
    by simp
  have 3: "isGenerating (step (CertificateSettled (FetchResolved sample_ok))
             (run [SubmitCertificate] sample_filled)) = False"
    using T [where out = "FetchResolved sample_ok" and s = sample_page
               and f = "certForm sample_page"
               and es = "[ChangeCertField Participant_name (ascii ''Jane Doe''),
                 ChangeCertField Course_name (ascii ''Full-Stack AI Development''),
                 SubmitCertificate]"] c
    unfolding c' by blast
  have 4: "requests (step SubmitCertificate
         (generateCertificate_settle (FetchResolved sample_ok) (certForm sample_filled)
            sample_filled))
       = requests sample_filled
           @ [certificate_request (env_PROD sample_filled) (certForm sample_filled)]"
    using T [where out = "FetchResolved sample_ok" and s = sample_filled
               and f = "certForm sample_filled" and es = "[]"]
      sample_filled_valid
    by blast
  from a 1 2 3 c 4 [unfolded b(2)] b(3) sample_page_invalid sample_filled_valid
  show ?thesis by (simp del: step.simps)
qed

section \<open>Properties of the server\<close>

lemma required_None:
  "map_of kvs k = None \<or> map_of kvs k = Some (JString []) \<Longrightarrow> required kvs k = None"
  by (auto simp: required_def)

text \<open>On a payload with a text, the endpoint does what the architecture notes sketch.\<close>

lemma convert_endpoint_follows_sketch:
  "required kvs ''markdown'' = Some md \<Longrightarrow>
     fst (convert_endpoint c (JObject kvs) log) =
       (case convert_sketch c md of
          None \<Rightarrow> render_error
        | Some pdf \<Rightarrow> PdfResponse pdf (optional kvs ''filename'' (default_filename c)))"
  by (simp add: convert_endpoint_def convert_sketch_def render_def split: option.splits)

text \<open>
  The client's side of an error response (lines 85 to 88 and 99 to 101): a non-empty
  string under \<^verbatim>\<open>detail\<close> becomes the message shown to the user.
\<close>

lemma client_shows_detail:
  "\<not> ok r \<Longrightarrow> json_result r = JsonParsed (StringValue d) \<Longrightarrow> d \<noteq> [] \<Longrightarrow>
     error (convertToPdf_settle (FetchResolved r) s) = Some d
     \<and> certError (generateCertificate_settle (FetchResolved r) f s) = Some d"
  by (simp add: convertToPdf_settle_def generateCertificate_settle_def receive_def
        response_error_def)

text \<open>
  Claim C1. A request to the conversion endpoint whose field \<^verbatim>\<open>markdown\<close> is absent or the
  empty string is answered with a 4xx response whose body is an object with the field
  \<^verbatim>\<open>detail\<close>, and the log of the renderer's calls is as before: the renderer was not called.
\<close>

theorem convert_rejects_missing_markdown:
  assumes "map_of kvs ''markdown'' = None \<or> map_of kvs ''markdown'' = Some (JString [])"
  shows "\<exists>msg. convert_endpoint c (JObject kvs) log
           = (ErrorResponse ClientError4xx (JObject [(''detail'', JString msg)]), log)"
  using required_None [OF assms] by (simp add: convert_endpoint_def validation_error_def)

theorem convert_rejects_missing_markdown_witness:
  "body (convert_request True []) =
     JObject [(''markdown'', JString []), (''filename'', JString (ascii ''markdown-export.pdf''))]
   \<and> map_of [(''markdown'', JString []), (''filename'', JString (ascii ''markdown-export.pdf''))]
         ''markdown'' = Some (JString [])
   \<and> (\<exists>msg. convert_endpoint sample_collaborators
          (JObject [(''markdown'', JString []),
                    (''filename'', JString (ascii ''markdown-export.pdf''))]) []
           = (ErrorResponse ClientError4xx (JObject [(''detail'', JString msg)]), []))
   \<and> map_of [(''filename'', JString (ascii ''a.pdf''))] ''markdown'' = None
   \<and> (\<exists>msg. convert_endpoint sample_collaborators
          (JObject [(''filename'', JString (ascii ''a.pdf''))]) []
           = (ErrorResponse ClientError4xx (JObject [(''detail'', JString msg)]), []))"
  using convert_rejects_missing_markdown
          [of "[(''markdown'', JString []), (''filename'', JString (ascii ''markdown-export.pdf''))]"
              sample_collaborators "[]"]
        convert_rejects_missing_markdown
          [of "[(''filename'', JString (ascii ''a.pdf''))]" sample_collaborators "[]"]
  by (simp add: convert_request_def)

text \<open>
  Claim C2. A request to the certificate endpoint whose course is not one of the listed
  courses is answered with a 4xx response whose body is an object with the field
  \<^verbatim>\<open>detail\<close>, whatever the other fields are, and the renderer was not called.
\<close>

theorem certificate_rejects_unknown_course:
  assumes "map_of kvs ''course_name'' = Some (JString course)" and "course \<notin> set COURSES"
  shows "\<exists>msg. certificate_endpoint c (JObject kvs) log
           = (ErrorResponse ClientError4xx (JObject [(''detail'', JString msg)]), log)"
proof (cases "required kvs ''participant_name''")
  case None
  then show ?thesis by (simp add: certificate_endpoint_def validation_error_def)
next
  case (Some p)
  show ?thesis
  proof (cases "course = []")
    case True
    with assms(1) have "required kvs ''course_name'' = None" by (simp add: required_def)
    with Some show ?thesis by (simp add: certificate_endpoint_def validation_error_def)
  next
    case False
    with assms(1) have "required kvs ''course_name'' = Some course" by (simp add: required_def)
    with Some assms(2) show ?thesis
      by (simp add: certificate_endpoint_def validation_error_def)
  qed
qed

lemma unknown_course: "ascii ''Basket Weaving'' \<notin> set COURSES"
  by (simp add: COURSES_def ascii_def)

theorem certificate_rejects_unknown_course_witness:
  "map_of [(''participant_name'', JString (ascii ''Jane Doe'')),
           (''course_name'', JString (ascii ''Basket Weaving'')),
           (''completion_date'', JString (ascii ''2026-01-01'')),
           (''instructor_name'', JString (ascii ''IntelliForge AI Team''))] ''course_name''
     = Some (JString (ascii ''Basket Weaving''))
   \<and> ascii ''Basket Weaving'' \<notin> set COURSES
   \<and> (\<exists>msg. certificate_endpoint sample_collaborators
          (JObject [(''participant_name'', JString (ascii ''Jane Doe'')),
                    (''course_name'', JString (ascii ''Basket Weaving'')),
                    (''completion_date'', JString (ascii ''2026-01-01'')),
                    (''instructor_name'', JString (ascii ''IntelliForge AI Team''))]) []
           = (ErrorResponse ClientError4xx (JObject [(''detail'', JString msg)]), []))"
proof -
  let ?kvs = "[(''participant_name'', JString (ascii ''Jane Doe'')),
               (''course_name'', JString (ascii ''Basket Weaving'')),
               (''completion_date'', JString (ascii ''2026-01-01'')),
               (''instructor_name'', JString (ascii ''IntelliForge AI Team''))]"
  have a: "map_of ?kvs ''course_name'' = Some (JString (ascii ''Basket Weaving''))"
    by simp
  from a unknown_course
    certificate_rejects_unknown_course [OF a unknown_course, of sample_collaborators "[]"]
  show ?thesis by blast
qed

end
